theory Spec2Isabelle
  imports Complex_Main
begin

section \<open>Python values and exceptions\<close>

text \<open>
  The plug-in \<^verbatim>\<open>plugins/perfmetrics.py\<close> is embedded function by function. Exceptions
  are values of the type \<open>error\<close>; a function that can raise returns the exception next
  to the state it leaves behind, since Python keeps every mutation done before the raise.
\<close>

datatype error =
    ValueError string
  | AttributeError string
  | NoOptionError string
  | FileNotFoundError string
  | FileExistsError string
  | IsADirectoryError string
  | PermissionError string
  | OSError string

text \<open>The values stored in the metrics dictionary (all of them JSON serialisable).\<close>

datatype pyval =
    PyInt int
  | PyStr string
  | PyList "pyval list"
  | PyDict "(string \<times> pyval) list"

text \<open>
  What a log record carries as \<^verbatim>\<open>record.msg\<close>: a string, or another object that
  \<^verbatim>\<open>str()\<close> renders.
\<close>

datatype msg_obj = MsgStr string | MsgInt int | MsgNone

record LogRecord =
  levelno :: nat
  msg :: msg_obj

subsection \<open>Decimal numerals\<close>

definition is_digit :: "char \<Rightarrow> bool" where
  "is_digit c = (c \<in> set ''0123456789'')"

definition digit_val :: "char \<Rightarrow> int" where
  "digit_val c = int (of_char c) - 48"

fun str_nat :: "nat \<Rightarrow> string" where
  "str_nat n = (if n < 10 then [''0123456789'' ! n]
                else str_nat (n div 10) @ [''0123456789'' ! (n mod 10)])"

definition str_int :: "int \<Rightarrow> string" where
  "str_int i = (if i < 0 then CHR ''-'' # str_nat (nat (- i)) else str_nat (nat i))"

fun py_str :: "msg_obj \<Rightarrow> string" where
  "py_str (MsgStr s) = s"
| "py_str (MsgInt i) = str_int i"
| "py_str MsgNone = ''None''"

text \<open>
  \<^verbatim>\<open>int(s)\<close> on a string, base 10: surrounding whitespace is dropped, one sign is
  allowed, and the rest is decimal digits, single underscores allowed between two digits.
  A numeral of more than 4300 digits is refused (the interpreter's default limit), and
  anything else raises ValueError too, here \<open>None\<close>. Characters are the code points
  below 256; of these \<^verbatim>\<open>int()\<close> drops tab, line feed, vertical tab, form feed, carriage
  return, the blank, U+0085 and U+00A0 around the numeral, and not the separators U+001C to
  U+001F.
\<close>

definition py_isspace :: "char \<Rightarrow> bool" where
  "py_isspace c = (c \<in> set [CHR 0x09, CHR 0x0A, CHR 0x0B, CHR 0x0C, CHR 0x0D,
      CHR 0x20, CHR 0x85, CHR 0xA0])"

definition int_max_str_digits :: nat where
  "int_max_str_digits = 4300"

definition strip :: "string \<Rightarrow> string" where
  "strip s = rev (dropWhile py_isspace (rev (dropWhile py_isspace s)))"

fun digits_ok :: "string \<Rightarrow> bool" where
  "digits_ok [] = False"
| "digits_ok [c] = is_digit c"
| "digits_ok (c # d # cs) =
     (is_digit c \<and> (if d = CHR ''_'' then digits_ok cs else digits_ok (d # cs)))"

definition decimal_value :: "string \<Rightarrow> int" where
  "decimal_value s = foldl (\<lambda>a c. 10 * a + digit_val c) 0 (filter is_digit s)"

definition py_int :: "string \<Rightarrow> int option" where
  "py_int s =
     (let t = strip s;
          (neg, body) = (case t of
              [] \<Rightarrow> (False, t)
            | c # r \<Rightarrow> if c = CHR ''-'' then (True, r)
                       else if c = CHR ''+'' then (False, r) else (False, t))
      in if digits_ok body \<and> length (filter is_digit body) \<le> int_max_str_digits
         then Some (if neg then - decimal_value body else decimal_value body)
         else None)"

text \<open>\<^verbatim>\<open>int(x)\<close> on a float truncates toward zero.\<close>

definition py_int_of_float :: "real \<Rightarrow> int" where
  "py_int_of_float x = (if 0 \<le> x then \<lfloor>x\<rfloor> else \<lceil>x\<rceil>)"

section \<open>MetricsFilter\<close>

text \<open>
  \<^verbatim>\<open>TIME_PATTERN = re.compile(r"^timer: (?P<event>.*): (?P<millisecs>[0-9.]+) ms$")\<close>,
  used with \<^verbatim>\<open>fullmatch\<close>. The number is a non-empty run of digits and dots and holds
  no blank, so it is the longest such run before the final \<^verbatim>\<open>" ms"\<close>; the event is
  what stands between \<^verbatim>\<open>"timer: "\<close> and the \<^verbatim>\<open>": "\<close> before the number, and a dot of
  the pattern matches every character but the newline. The result is the pair of the groups
  \<open>(event, millisecs)\<close>.
\<close>

definition is_numchar :: "char \<Rightarrow> bool" where
  "is_numchar c = (is_digit c \<or> c = CHR ''.'')"

definition TIME_PATTERN_fullmatch :: "string \<Rightarrow> (string \<times> string) option" where
  "TIME_PATTERN_fullmatch s =
     (if take 7 s = ''timer: '' then
        (let r = rev (drop 7 s) in
         if take 3 r = ''sm '' then
           (let r1 = drop 3 r;
                n = takeWhile is_numchar r1;
                r2 = dropWhile is_numchar r1
            in if n \<noteq> [] \<and> take 2 r2 = '' :'' \<and> CHR 0x0A \<notin> set (drop 2 r2)
               then Some (rev (drop 2 r2), rev n)
               else None)
         else None)
      else None)"

text \<open>\<^verbatim>\<open>event.replace(" ", "_")\<close>\<close>

definition replace_space :: "string \<Rightarrow> string" where
  "replace_space s = map (\<lambda>c. if c = CHR '' '' then CHR ''_'' else c) s"

text \<open>
  \<^verbatim>\<open>MetricsFilter.filter(self, record)\<close>: the dictionary is the one of the plug-in
  (\<^verbatim>\<open>self.metrics_dict\<close>), returned updated. The first component is the exception
  raised, or the boolean returned.
\<close>

definition MetricsFilter_filter ::
  "(string \<rightharpoonup> pyval) \<Rightarrow> LogRecord \<Rightarrow> (error + bool) \<times> (string \<rightharpoonup> pyval)" where
  "MetricsFilter_filter metrics_dict record =
     (case TIME_PATTERN_fullmatch (py_str (msg record)) of
        None \<Rightarrow> (Inr False, metrics_dict)
      | Some (event, millisecs) \<Rightarrow>
          (let k = replace_space event @ ''_time'' in
           case py_int millisecs of
             None \<Rightarrow> (Inl (ValueError millisecs), metrics_dict)
           | Some v \<Rightarrow> (Inr False, metrics_dict(k \<mapsto> PyInt v))))"

section \<open>The file system, the clock and the process\<close>

text \<open>
  A directory is the list of its entries, in the order \<^verbatim>\<open>os.listdir\<close> enumerates
  them; an entry has a kind and a modification time (\<^verbatim>\<open>st_mtime\<close>, in seconds).
  \<open>File\<close> stands for whatever \<^verbatim>\<open>os.remove\<close> can unlink (a regular file, a symbolic link,
  a socket), and \<open>st_mtime\<close> is what \<^verbatim>\<open>os.stat\<close> reports, for a link the time of its
  target. Times are real numbers: the arithmetic of the source is taken as exact, and
  \<^verbatim>\<open>retention_hours * 3600\<close> as small enough to convert to a float (past that the
  subtraction of the source raises OverflowError). The content of a file is not part of
  the model, nothing in the plug-in reads a file back.
\<close>

datatype kind = File | Directory

record entry =
  kind :: kind
  st_mtime :: real

type_synonym dir = "(string \<times> entry) list"

text \<open>
  What happens to the sweep from outside. Other invocations may share the metrics
  directory; of what they do, the sweep can observe the entries they delete:
  \<open>before_stat f\<close> are the names a sibling deletes after the previous step of this process
  and before its \<^verbatim>\<open>os.stat\<close> on \<open>f\<close>, \<open>before_remove f\<close> the names it deletes between
  that call and \<^verbatim>\<open>os.remove\<close>. The operating system may also refuse a call on an entry
  that is listed: \<open>stat_fault f\<close> is the exception \<^verbatim>\<open>os.stat\<close> raises on \<open>f\<close>
  (FileNotFoundError for a symbolic link whose target is missing, OSError for a loop of
  links), \<open>remove_fault f\<close> the one \<^verbatim>\<open>os.remove\<close> raises on it for another reason than
  its being a directory (PermissionError on an immutable file, OSError on a read-only file
  system). \<open>quiet\<close> is the world where none of this happens.
\<close>

record sibling =
  before_stat :: "string \<Rightarrow> string list"
  before_remove :: "string \<Rightarrow> string list"
  stat_fault :: "string \<Rightarrow> error option"
  remove_fault :: "string \<Rightarrow> error option"

definition quiet :: sibling where
  "quiet = \<lparr>before_stat = (\<lambda>f. []), before_remove = (\<lambda>f. []),
            stat_fault = (\<lambda>f. None), remove_fault = (\<lambda>f. None)\<rparr>"

definition vanish :: "string list \<Rightarrow> dir \<Rightarrow> dir" where
  "vanish gone d = filter (\<lambda>(n, e). n \<notin> set gone) d"

text \<open>
  The world a call runs in. \<open>clock w i\<close> is what the \<open>i\<close>-th call of \<^verbatim>\<open>time.time()\<close>
  returns, \<open>dirs\<close> the directories that exist, by path. Whether the operating system
  refuses to create a directory, to open a file or to write to it (permissions, a full
  disk, a read-only file system) is not decided by the plug-in: \<open>makedirs_fault\<close>,
  \<open>open_fault\<close> and \<open>write_fault\<close> give the exception such a call raises, if any.
  \<open>float_repr\<close> is the interpreter's rendering of a float, \<open>error_log\<close> what was passed to
  \<^verbatim>\<open>LOGGER.error\<close> (the format and its argument).
\<close>

record world =
  ticks :: nat
  clock :: "nat \<Rightarrow> real"
  euid :: nat
  pid :: nat
  dirs :: "string \<rightharpoonup> dir"
  makedirs_fault :: "string \<Rightarrow> error option"
  open_fault :: "string \<Rightarrow> error option"
  write_fault :: "string \<Rightarrow> error option"
  siblings :: sibling
  float_repr :: "real \<Rightarrow> string"
  error_log :: "(string \<times> string) list"

definition time_time :: "world \<Rightarrow> real \<times> world" where
  "time_time w = (clock w (ticks w), w\<lparr>ticks := Suc (ticks w)\<rparr>)"

definition os_path_join :: "string \<Rightarrow> string \<Rightarrow> string" where
  "os_path_join a b =
     (if take 1 b = ''/'' then b
      else if a = [] \<or> last a = CHR ''/'' then a @ b
      else a @ ''/'' @ b)"

definition os_path_exists :: "world \<Rightarrow> string \<Rightarrow> bool" where
  "os_path_exists w p = (dirs w p \<noteq> None)"

definition os_makedirs :: "world \<Rightarrow> string \<Rightarrow> error option \<times> world" where
  "os_makedirs w p =
     (case makedirs_fault w p of
        Some e \<Rightarrow> (Some e, w)
      | None \<Rightarrow>
          (case dirs w p of
             Some d \<Rightarrow> (Some (FileExistsError p), w)
           | None \<Rightarrow> (None, w\<lparr>dirs := (dirs w)(p \<mapsto> [])\<rparr>)))"

text \<open>\<^verbatim>\<open>os.stat\<close> and \<^verbatim>\<open>os.remove\<close> on the entry \<open>f\<close> of the directory \<open>mdir\<close>.\<close>

definition os_stat :: "sibling \<Rightarrow> string \<Rightarrow> dir \<Rightarrow> string \<Rightarrow> error + entry" where
  "os_stat sib mdir d f =
     (case map_of d f of
        None \<Rightarrow> Inl (FileNotFoundError (os_path_join mdir f))
      | Some e \<Rightarrow>
          (case stat_fault sib f of
             Some x \<Rightarrow> Inl x
           | None \<Rightarrow> Inr e))"

definition os_remove :: "sibling \<Rightarrow> string \<Rightarrow> dir \<Rightarrow> string \<Rightarrow> error + dir" where
  "os_remove sib mdir d f =
     (case map_of d f of
        None \<Rightarrow> Inl (FileNotFoundError (os_path_join mdir f))
      | Some e \<Rightarrow>
          if kind e = Directory then Inl (IsADirectoryError (os_path_join mdir f))
          else (case remove_fault sib f of
                  Some x \<Rightarrow> Inl x
                | None \<Rightarrow> Inr (filter (\<lambda>(n, e). n \<noteq> f) d)))"

text \<open>
  \<^verbatim>\<open>with open(filename, "w") as fh: json.dump(...); fh.write("\n")\<close>: opening creates
  the file, or truncates the one of that name, and the write may still fail afterwards,
  leaving the file behind.
\<close>

definition put_entry :: "string \<Rightarrow> entry \<Rightarrow> dir \<Rightarrow> dir" where
  "put_entry f e d =
     (if f \<in> fst ` set d then map (\<lambda>(n, x). if n = f then (n, e) else (n, x)) d
      else d @ [(f, e)])"

definition open_and_dump :: "world \<Rightarrow> string \<Rightarrow> string \<Rightarrow> error option \<times> world" where
  "open_and_dump w mdir f =
     (let filename = os_path_join mdir f in
      case open_fault w filename of
        Some e \<Rightarrow> (Some e, w)
      | None \<Rightarrow>
          (case dirs w mdir of
             None \<Rightarrow> (Some (FileNotFoundError filename), w)
           | Some d \<Rightarrow>
               if map_option kind (map_of d f) = Some Directory
               then (Some (IsADirectoryError filename), w)
               else
                 (let w1 = w\<lparr>dirs := (dirs w)(mdir \<mapsto>
                        put_entry f \<lparr>kind = File, st_mtime = clock w (ticks w)\<rparr> d)\<rparr>
                  in case write_fault w filename of
                       Some e \<Rightarrow> (Some e, w1)
                     | None \<Rightarrow> (None, w1))))"

text \<open>What \<^verbatim>\<open>except (IOError, OSError)\<close> catches.\<close>

fun is_OSError :: "error \<Rightarrow> bool" where
  "is_OSError (ValueError x) = False"
| "is_OSError (AttributeError x) = False"
| "is_OSError (NoOptionError x) = False"
| "is_OSError (FileNotFoundError x) = True"
| "is_OSError (FileExistsError x) = True"
| "is_OSError (IsADirectoryError x) = True"
| "is_OSError (PermissionError x) = True"
| "is_OSError (OSError x) = True"

section \<open>DnfPerfMetrics\<close>

definition DEFAULT_METRICS_DIR :: string where
  "DEFAULT_METRICS_DIR = ''/var/log/dnf/perfmetrics''"

definition DEFAULT_RETENTION_HOURS :: int where
  "DEFAULT_RETENTION_HOURS = 4"

text \<open>
  The attributes of the plug-in object. \<open>transaction_start_time\<close> is \<open>None\<close> until
  \<^verbatim>\<open>pre_transaction\<close> has set the attribute.
\<close>

record DnfPerfMetrics =
  time_metrics :: "string \<rightharpoonup> pyval"
  full_command_start_time :: real
  transaction_start_time :: "real option"
  metrics_dir :: string
  retention_hours :: int

text \<open>
  \<^verbatim>\<open>__init__\<close>, given the name of the process, the names of its parents (nearest
  first) and \<^verbatim>\<open>sys.argv\<close>.
\<close>

definition init :: "string \<Rightarrow> string list \<Rightarrow> string list \<Rightarrow> world \<Rightarrow> DnfPerfMetrics \<times> world" where
  "init proc_name parents argv w =
     (let (t, w1) = time_time w in
      (\<lparr>time_metrics =
          [''process_tree'' \<mapsto> PyList (map PyStr (rev (proc_name # parents))),
           ''command_args'' \<mapsto> PyList (map PyStr argv)],
        full_command_start_time = t,
        transaction_start_time = None,
        metrics_dir = DEFAULT_METRICS_DIR,
        retention_hours = DEFAULT_RETENTION_HOURS\<rparr>, w1))"

text \<open>
  The configuration parser \<^verbatim>\<open>read_config\<close> returns: sections, each mapping its options
  to their strings.
\<close>

type_synonym ConfigParser = "string \<rightharpoonup> (string \<rightharpoonup> string)"

definition has_section :: "ConfigParser \<Rightarrow> string \<Rightarrow> bool" where
  "has_section cp s = (cp s \<noteq> None)"

definition has_option :: "ConfigParser \<Rightarrow> string \<Rightarrow> string \<Rightarrow> bool" where
  "has_option cp s k = (case cp s of None \<Rightarrow> False | Some sec \<Rightarrow> sec k \<noteq> None)"

definition cp_get :: "ConfigParser \<Rightarrow> string \<Rightarrow> string \<Rightarrow> error + string" where
  "cp_get cp s k =
     (case cp s of
        None \<Rightarrow> Inl (NoOptionError k)
      | Some sec \<Rightarrow> (case sec k of None \<Rightarrow> Inl (NoOptionError k) | Some v \<Rightarrow> Inr v))"

definition config :: "ConfigParser \<Rightarrow> DnfPerfMetrics \<Rightarrow> error option \<times> DnfPerfMetrics" where
  "config cp self =
     (if has_section cp ''main'' then
        (case (if has_option cp ''main'' ''metrics_dir''
               then (case cp_get cp ''main'' ''metrics_dir'' of
                       Inl e \<Rightarrow> (Some e, self)
                     | Inr v \<Rightarrow> (None, self\<lparr>metrics_dir := v\<rparr>))
               else (None, self)) of
           (Some e, self1) \<Rightarrow> (Some e, self1)
         | (None, self1) \<Rightarrow>
             if has_option cp ''main'' ''retention_hours''
             then (case cp_get cp ''main'' ''retention_hours'' of
                     Inl e \<Rightarrow> (Some e, self1)
                   | Inr v \<Rightarrow>
                       (case py_int v of
                          None \<Rightarrow> (Some (ValueError v), self1)
                        | Some i \<Rightarrow> (None, self1\<lparr>retention_hours := i\<rparr>)))
             else (None, self1))
      else (None, self))"

text \<open>A member of the transaction, with the attributes \<^verbatim>\<open>pre_transaction\<close> reads.\<close>

record member =
  name :: string
  arch :: string
  epoch :: string
  version :: string
  release :: string
  action_short :: string
  package_size :: int
  install_size :: int

definition package_action :: "member \<Rightarrow> pyval" where
  "package_action m = PyDict
     [(''name'', PyStr (name m)), (''arch'', PyStr (arch m)), (''epoch'', PyStr (epoch m)),
      (''version'', PyStr (version m)), (''release'', PyStr (release m)),
      (''action'', PyStr (action_short m)), (''package_size'', PyInt (package_size m)),
      (''install_size'', PyInt (install_size m))]"

definition pre_transaction :: "member list \<Rightarrow> DnfPerfMetrics \<Rightarrow> world \<Rightarrow> DnfPerfMetrics \<times> world" where
  "pre_transaction members self w =
     (let package_actions = map package_action members;
          (t, w1) = time_time w
      in (self\<lparr>transaction_start_time := Some t,
               time_metrics := (time_metrics self)(''package_actions'' \<mapsto> PyList package_actions)\<rparr>,
          w1))"

text \<open>\<^verbatim>\<open>"perfmetrics-{}_{}.json".format(now, os.getpid())\<close>\<close>

definition perfmetrics_name :: "world \<Rightarrow> real \<Rightarrow> string" where
  "perfmetrics_name w now =
     ''perfmetrics-'' @ float_repr w now @ ''_'' @ str_nat (pid w) @ ''.json''"

definition write_results :: "DnfPerfMetrics \<Rightarrow> world \<Rightarrow> error option \<times> world" where
  "write_results self w =
     (let (now, w1) = time_time w;
          mdir = metrics_dir self
      in case (if \<not> os_path_exists w1 mdir then os_makedirs w1 mdir else (None, w1)) of
           (Some e, w2) \<Rightarrow> (Some e, w2)
         | (None, w2) \<Rightarrow>
             (let f = perfmetrics_name w2 now;
                  filename = os_path_join mdir f
              in case open_and_dump w2 mdir f of
                   (None, w3) \<Rightarrow> (None, w3)
                 | (Some e, w3) \<Rightarrow>
                     if is_OSError e
                     then (None, w3\<lparr>error_log := error_log w3 @
                             [(''Error writing performance metrics to file %s'', filename)]\<rparr>)
                     else (Some e, w3)))"

text \<open>
  The loop of \<^verbatim>\<open>cleanup_old_logs\<close> over the names \<^verbatim>\<open>os.listdir\<close> returned, on the
  directory \<open>d\<close> as it stands. It has no \<^verbatim>\<open>try\<close>: the first exception ends it.
\<close>

fun cleanup_loop ::
  "real \<Rightarrow> int \<Rightarrow> string \<Rightarrow> sibling \<Rightarrow> string list \<Rightarrow> dir \<Rightarrow> error option \<times> dir" where
  "cleanup_loop now rh mdir sib [] d = (None, d)"
| "cleanup_loop now rh mdir sib (f # fs) d =
     (let d1 = vanish (before_stat sib f) d in
      case os_stat sib mdir d1 f of
        Inl e \<Rightarrow> (Some e, d1)
      | Inr st \<Rightarrow>
          if st_mtime st < now - real_of_int (rh * 3600)
          then (let d2 = vanish (before_remove sib f) d1 in
                case os_remove sib mdir d2 f of
                  Inl e \<Rightarrow> (Some e, d2)
                | Inr d3 \<Rightarrow> cleanup_loop now rh mdir sib fs d3)
          else cleanup_loop now rh mdir sib fs d1)"

definition cleanup_old_logs :: "DnfPerfMetrics \<Rightarrow> world \<Rightarrow> error option \<times> world" where
  "cleanup_old_logs self w =
     (let (now, w1) = time_time w;
          mdir = metrics_dir self;
          rh = retention_hours self
      in case dirs w1 mdir of
           None \<Rightarrow> (Some (FileNotFoundError mdir), w1)
         | Some d \<Rightarrow>
             (let (r, d') = cleanup_loop now rh mdir (siblings w1) (map fst d) d
              in (r, w1\<lparr>dirs := (dirs w1)(mdir \<mapsto> d')\<rparr>)))"

definition transaction :: "DnfPerfMetrics \<Rightarrow> world \<Rightarrow> error option \<times> DnfPerfMetrics \<times> world" where
  "transaction self w =
     (let (t, w1) = time_time w in
      case transaction_start_time self of
        None \<Rightarrow> (Some (AttributeError ''transaction_start_time''), self, w1)
      | Some t0 \<Rightarrow>
          (let self1 = self\<lparr>time_metrics := (time_metrics self)
                 (''full_transaction_time'' \<mapsto> PyInt (py_int_of_float ((t - t0) * 1000)))\<rparr>
           in if euid w1 \<noteq> 0 then (None, self1, w1)
              else (case write_results self1 w1 of
                      (Some e, w2) \<Rightarrow> (Some e, self1, w2)
                    | (None, w2) \<Rightarrow>
                        (let (r, w3) = cleanup_old_logs self1 w2 in (r, self1, w3)))))"

section \<open>Example runs\<close>

text \<open>
  Concrete inputs for the closed instances below: a root process, the plug-in after
  \<^verbatim>\<open>__init__\<close> and \<^verbatim>\<open>pre_transaction\<close>, and metrics directories at the moment of a sweep
  (the clock reads 1700000002, four hours are 14400 seconds).
\<close>

definition world0 :: world where
  "world0 = \<lparr>ticks = 0, clock = (\<lambda>i. 1700000000 + real i), euid = 0, pid = 4242,
      dirs = Map.empty, makedirs_fault = (\<lambda>p. None), open_fault = (\<lambda>p. None),
      write_fault = (\<lambda>p. None), siblings = quiet,
      float_repr = (\<lambda>x. ''1700000002.0''), error_log = []\<rparr>"

definition plugin0 :: DnfPerfMetrics where
  "plugin0 = fst (pre_transaction
      [\<lparr>name = ''bash'', arch = ''x86_64'', epoch = ''0'', version = ''5.2'', release = ''1'',
        action_short = ''U'', package_size = 1800000, install_size = 7500000\<rparr>]
      (fst (init ''dnf'' [''bash'', ''systemd''] [''dnf'', ''upgrade''] world0))
      (snd (init ''dnf'' [''bash'', ''systemd''] [''dnf'', ''upgrade''] world0)))"








section \<open>The pattern and the conversion\<close>

lemma rev_eq_append_conv: "rev xs = ys @ zs \<longleftrightarrow> xs = rev zs @ rev ys"
  by (metis rev_append rev_rev_ident)

lemma not_numchar_space: "\<not> is_numchar CHR '' ''"
  by (simp add: is_numchar_def is_digit_def)

text \<open>The matcher accepts exactly the strings of the grammar, and returns its two groups.\<close>

lemma TIME_PATTERN_fullmatch_iff:
  "TIME_PATTERN_fullmatch s = Some (e, n) \<longleftrightarrow>
     s = ''timer: '' @ e @ '': '' @ n @ '' ms'' \<and> CHR 0x0A \<notin> set e \<and>
     n \<noteq> [] \<and> list_all is_numchar n"
proof
  assume m: "TIME_PATTERN_fullmatch s = Some (e, n)"
  define r where "r = rev (drop 7 s)"
  define r1 where "r1 = drop 3 r"
  from m have p: "take 7 s = ''timer: ''"
    by (auto simp: TIME_PATTERN_fullmatch_def split: if_splits)
  from m have q: "take 3 r = ''sm ''"
    by (auto simp: TIME_PATTERN_fullmatch_def r_def Let_def split: if_splits)
  from m p q have g: "takeWhile is_numchar r1 \<noteq> []" "take 2 (dropWhile is_numchar r1) = '' :''"
    "CHR 0x0A \<notin> set (drop 2 (dropWhile is_numchar r1))"
    "e = rev (drop 2 (dropWhile is_numchar r1))" "n = rev (takeWhile is_numchar r1)"
    by (auto simp: TIME_PATTERN_fullmatch_def r_def r1_def Let_def split: if_splits)
  have "r1 = takeWhile is_numchar r1 @ dropWhile is_numchar r1" by simp
  also have "dropWhile is_numchar r1 = '' :'' @ drop 2 (dropWhile is_numchar r1)"
    using g(2) by (metis append_take_drop_id)
  finally have r1: "r1 = rev n @ '' :'' @ rev e" using g(4,5) by simp
  have "r = take 3 r @ drop 3 r" by simp
  then have "r = ''sm '' @ rev n @ '' :'' @ rev e" using q r1 r1_def by simp
  then have "drop 7 s = e @ '': '' @ n @ '' ms''"
    unfolding r_def rev_eq_append_conv by (simp add: rev_eq_append_conv)
  moreover have "s = take 7 s @ drop 7 s" by simp
  ultimately have "s = ''timer: '' @ e @ '': '' @ n @ '' ms''" using p by simp
  moreover have "list_all is_numchar n"
    using g(5) by (simp add: list_all_iff) (metis set_takeWhileD)
  ultimately show "s = ''timer: '' @ e @ '': '' @ n @ '' ms'' \<and> CHR 0x0A \<notin> set e \<and>
     n \<noteq> [] \<and> list_all is_numchar n"
    using g by simp
next
  assume a: "s = ''timer: '' @ e @ '': '' @ n @ '' ms'' \<and> CHR 0x0A \<notin> set e \<and>
     n \<noteq> [] \<and> list_all is_numchar n"
  then have r: "rev (drop 7 s) = ''sm '' @ rev n @ '' :'' @ rev e" by simp
  have num: "\<And>x. x \<in> set (rev n) \<Longrightarrow> is_numchar x"
    using a by (simp add: list_all_iff)
  have tw: "takeWhile is_numchar (rev n @ CHR '' '' # CHR '':'' # rev e) = rev n"
    using takeWhile_append2 [of "rev n" is_numchar "CHR '' '' # CHR '':'' # rev e", OF num]
    by (simp add: not_numchar_space)
  have dw: "dropWhile is_numchar (rev n @ CHR '' '' # CHR '':'' # rev e)
      = CHR '' '' # CHR '':'' # rev e"
    using dropWhile_append2 [of "rev n" is_numchar "CHR '' '' # CHR '':'' # rev e", OF num]
    by (simp add: not_numchar_space)
  have "TIME_PATTERN_fullmatch (''timer: '' @ e @ '': '' @ n @ '' ms'') = Some (e, n)"
    using a by (simp add: TIME_PATTERN_fullmatch_def Let_def tw dw)
  then show "TIME_PATTERN_fullmatch s = Some (e, n)"
    using a by simp
qed

lemma not_space_numchar: "is_numchar c \<Longrightarrow> \<not> py_isspace c"
  by (auto simp: is_numchar_def is_digit_def py_isspace_def)

lemma strip_numeral:
  assumes "n \<noteq> []" "list_all is_numchar n"
  shows "strip n = n"
proof -
  have h: "\<not> py_isspace (hd n)" using assms by (cases n) (auto simp: not_space_numchar)
  have l: "\<not> py_isspace (hd (rev n))"
    using assms by (simp add: hd_rev list_all_iff not_space_numchar)
  have "dropWhile py_isspace n = n" using h assms(1) by (cases n) auto
  moreover have "dropWhile py_isspace (rev n) = rev n" using l assms(1) by (cases "rev n") auto
  ultimately show ?thesis by (simp add: strip_def)
qed

lemma digits_ok_digits: "list_all is_digit s \<Longrightarrow> s \<noteq> [] \<Longrightarrow> digits_ok s"
  by (induction s rule: digits_ok.induct) (auto simp: is_digit_def)

lemma digits_ok_no_dot: "digits_ok s \<Longrightarrow> CHR ''.'' \<notin> set s"
  by (induction s rule: digits_ok.induct) (auto simp: is_digit_def split: if_splits)

lemma numchar_digit: "is_numchar c \<Longrightarrow> c \<noteq> CHR ''.'' \<Longrightarrow> is_digit c"
  by (simp add: is_numchar_def)

lemma numchar_not_sign: "is_numchar c \<Longrightarrow> c \<noteq> CHR ''-'' \<and> c \<noteq> CHR ''+''"
  by (auto simp: is_numchar_def is_digit_def)

lemma py_int_numeral:
  assumes "n \<noteq> []" "list_all is_numchar n"
  shows "py_int n = (if CHR ''.'' \<in> set n \<or> int_max_str_digits < length n then None
                     else Some (decimal_value n))"
proof -
  obtain c r where n: "n = c # r" using assms(1) by (cases n) auto
  have c: "c \<noteq> CHR ''-''" "c \<noteq> CHR ''+''" using assms(2) n numchar_not_sign by auto
  have p: "py_int n = (if digits_ok n \<and> length (filter is_digit n) \<le> int_max_str_digits
                       then Some (decimal_value n) else None)"
    using c strip_numeral [OF assms] unfolding py_int_def n by (simp add: Let_def)
  show ?thesis
  proof (cases "CHR ''.'' \<in> set n")
    case True
    then have "\<not> digits_ok n" using digits_ok_no_dot by blast
    then show ?thesis using p True by simp
  next
    case False
    then have "list_all is_digit n"
      using assms(2) by (auto simp: list_all_iff intro: numchar_digit)
    then have "digits_ok n" and "filter is_digit n = n"
      using assms(1) by (auto simp: digits_ok_digits list_all_iff)
    then show ?thesis using p False by auto
  qed
qed

text \<open>
  What the filter does on every record: no match leaves the dictionary alone, a number
  without a dot is stored, and a number with a dot, or of more than 4300 digits, is refused
  by \<^verbatim>\<open>int()\<close>.
\<close>

lemma filter_cases:
  "MetricsFilter_filter d r =
     (case TIME_PATTERN_fullmatch (py_str (msg r)) of
        None \<Rightarrow> (Inr False, d)
      | Some (ev, n) \<Rightarrow>
          if CHR ''.'' \<in> set n \<or> int_max_str_digits < length n then (Inl (ValueError n), d)
          else (Inr False, d(replace_space ev @ ''_time'' \<mapsto> PyInt (decimal_value n))))"
proof (cases "TIME_PATTERN_fullmatch (py_str (msg r))")
  case None
  then show ?thesis by (simp add: MetricsFilter_filter_def)
next
  case (Some p)
  obtain ev n where p: "p = (ev, n)" by (cases p)
  have "n \<noteq> []" "list_all is_numchar n"
    using Some p TIME_PATTERN_fullmatch_iff [of "py_str (msg r)" ev n] by auto
  then show ?thesis
    using Some p by (simp add: MetricsFilter_filter_def py_int_numeral)
qed

lemma filter_never_True: "fst (MetricsFilter_filter d r) \<noteq> Inr True"
  by (auto simp: filter_cases split: option.splits)

lemmas filter_eval = MetricsFilter_filter_def TIME_PATTERN_fullmatch_def replace_space_def
  py_int_def strip_def py_isspace_def is_digit_def decimal_value_def digit_val_def
  is_numchar_def int_max_str_digits_def

lemma filter_depsolve_scenario:
  "MetricsFilter_filter d \<lparr>levelno = l, msg = MsgStr ''timer: depsolve: 532 ms''\<rparr>
     = (Inr False, d(''depsolve_time'' \<mapsto> PyInt 532))"
  by (simp add: filter_eval)

lemma filter_non_string:
  "MetricsFilter_filter d \<lparr>levelno = l, msg = MsgInt 42\<rparr> = (Inr False, d)"
  by (simp add: filter_eval str_int_def)

text \<open>
  C1. The message \<^verbatim>\<open>"timer: rpm transaction: 12.9 ms"\<close> matches the pattern, but
  \<^verbatim>\<open>int("12.9")\<close> raises ValueError: the filter raises and stores nothing under
  \<^verbatim>\<open>rpm_transaction_time\<close>, where the claim expects the value 12.
\<close>

theorem filter_decimal_not_truncated:
  "MetricsFilter_filter d \<lparr>levelno = l, msg = MsgStr ''timer: rpm transaction: 12.9 ms''\<rparr>
     = (Inl (ValueError ''12.9''), d)"
  by (simp add: filter_eval)

text \<open>
  C2. The filter raises on a message of the grammar whose number holds a dot, here
  \<^verbatim>\<open>"timer: depsolve: 1.2.3 ms"\<close>; the claim says it never raises.
\<close>

theorem filter_raises_ValueError:
  "fst (MetricsFilter_filter d \<lparr>levelno = l, msg = MsgStr ''timer: depsolve: 1.2.3 ms''\<rparr>)
     = Inl (ValueError ''1.2.3'')"
  by (simp add: filter_eval)

text \<open>
  C8. On \<^verbatim>\<open>"timer: depsolve: 0.5 ms"\<close> the filter does not reach its
  \<^verbatim>\<open>return False\<close>: the exception leaves it first. The claim says it returns false on
  every message.
\<close>

theorem filter_decimal_no_return:
  "fst (MetricsFilter_filter d \<lparr>levelno = l, msg = MsgStr ''timer: depsolve: 0.5 ms''\<rparr>)
     \<noteq> Inr False"
  by (simp add: filter_eval)

section \<open>Configuration\<close>

text \<open>
  C7. A \<^verbatim>\<open>retention_hours\<close> option that is present and that \<^verbatim>\<open>int()\<close> cannot parse makes
  \<^verbatim>\<open>config\<close> raise (ValueError, with no fallback); without the section \<^verbatim>\<open>main\<close> the
  plug-in is left as it is, a missing \<^verbatim>\<open>retention_hours\<close> or \<^verbatim>\<open>metrics_dir\<close> option
  leaves that attribute as it is, and \<^verbatim>\<open>__init__\<close> sets the two attributes to
  \<^verbatim>\<open>/var/log/dnf/perfmetrics\<close> and 4.
\<close>

theorem config_retention_hours:
  "(cp ''main'' = Some sec \<and> sec ''retention_hours'' = Some v \<and> py_int v = None
      \<longrightarrow> fst (config cp self) = Some (ValueError v))
   \<and> (cp ''main'' = None \<longrightarrow> config cp self = (None, self))
   \<and> (cp ''main'' = Some sec \<and> sec ''retention_hours'' = None
      \<longrightarrow> fst (config cp self) = None
          \<and> retention_hours (snd (config cp self)) = retention_hours self)
   \<and> (cp ''main'' = Some sec \<and> sec ''metrics_dir'' = None
      \<longrightarrow> metrics_dir (snd (config cp self)) = metrics_dir self)
   \<and> metrics_dir (fst (init p ps argv w)) = ''/var/log/dnf/perfmetrics''
   \<and> retention_hours (fst (init p ps argv w)) = 4"
  by (auto simp: config_def has_section_def has_option_def cp_get_def init_def time_time_def
      DEFAULT_METRICS_DIR_def DEFAULT_RETENTION_HOURS_def split: option.splits)

theorem config_retention_hours_witness:
  "fst (config [''main'' \<mapsto> [''retention_hours'' \<mapsto> ''abc'']]
        (fst (init ''dnf'' [''bash'', ''systemd''] [''dnf'', ''upgrade''] world0)))
     = Some (ValueError ''abc'')
   \<and> config Map.empty plugin0 = (None, plugin0)
   \<and> retention_hours (snd (config [''main'' \<mapsto> [''metrics_dir'' \<mapsto> ''/tmp/m'']]
        (fst (init ''dnf'' [''bash'', ''systemd''] [''dnf'', ''upgrade''] world0)))) = 4
   \<and> metrics_dir (snd (config [''main'' \<mapsto> [''retention_hours'' \<mapsto> ''12'']]
        (fst (init ''dnf'' [''bash'', ''systemd''] [''dnf'', ''upgrade''] world0))))
     = ''/var/log/dnf/perfmetrics''"
proof -
  let ?s = "fst (init ''dnf'' [''bash'', ''systemd''] [''dnf'', ''upgrade''] world0)"
  have a: "py_int ''abc'' = None"
    by (simp add: py_int_def strip_def py_isspace_def is_digit_def)
  note t1 = config_retention_hours [of "[''main'' \<mapsto> [''retention_hours'' \<mapsto> ''abc'']]"
      "[''retention_hours'' \<mapsto> ''abc'']" "''abc''" ?s
      "''dnf''" "[''bash'', ''systemd'']" "[''dnf'', ''upgrade'']" world0]
  note t2 = config_retention_hours [of Map.empty Map.empty "''abc''" plugin0
      "''dnf''" "[''bash'', ''systemd'']" "[''dnf'', ''upgrade'']" world0]
  note t3 = config_retention_hours [of "[''main'' \<mapsto> [''metrics_dir'' \<mapsto> ''/tmp/m'']]"
      "[''metrics_dir'' \<mapsto> ''/tmp/m'']" "''abc''" ?s
      "''dnf''" "[''bash'', ''systemd'']" "[''dnf'', ''upgrade'']" world0]
  note t4 = config_retention_hours [of "[''main'' \<mapsto> [''retention_hours'' \<mapsto> ''12'']]"
      "[''retention_hours'' \<mapsto> ''12'']" "''abc''" ?s
      "''dnf''" "[''bash'', ''systemd'']" "[''dnf'', ''upgrade'']" world0]
  show ?thesis using t1 t2 t3 t4 a by simp
qed

section \<open>The transaction hook\<close>

lemma plugin0_simps:
  "transaction_start_time plugin0 = Some 1700000001"
  "metrics_dir plugin0 = ''/var/log/dnf/perfmetrics''"
  "retention_hours plugin0 = 4"
  by (simp_all add: plugin0_def pre_transaction_def init_def time_time_def world0_def
      DEFAULT_METRICS_DIR_def DEFAULT_RETENTION_HOURS_def)

text \<open>
  C6. When the effective user is not root (and \<^verbatim>\<open>pre_transaction\<close> has run, so that the
  start time is set), \<^verbatim>\<open>transaction\<close> returns without an exception, no directory and no
  file is created or deleted, and nothing is logged.
\<close>

theorem transaction_not_root:
  assumes "euid w \<noteq> 0" and "transaction_start_time self = Some t0"
  shows "fst (transaction self w) = None
     \<and> dirs (snd (snd (transaction self w))) = dirs w
     \<and> error_log (snd (snd (transaction self w))) = error_log w"
  using assms by (simp add: transaction_def time_time_def)

theorem transaction_not_root_witness:
  "fst (transaction plugin0 (world0\<lparr>euid := 1000, ticks := 2\<rparr>)) = None
     \<and> dirs (snd (snd (transaction plugin0 (world0\<lparr>euid := 1000, ticks := 2\<rparr>)))) = Map.empty
     \<and> error_log (snd (snd (transaction plugin0 (world0\<lparr>euid := 1000, ticks := 2\<rparr>)))) = []"
  using transaction_not_root [of "world0\<lparr>euid := 1000, ticks := 2\<rparr>" plugin0 1700000001]
  by (simp add: plugin0_simps world0_def)

section \<open>Writing the results\<close>

text \<open>
  A failure of \<^verbatim>\<open>open\<close> or of the write is caught and logged with the path; a failure
  of \<^verbatim>\<open>os.makedirs\<close> is outside the \<^verbatim>\<open>try\<close> and leaves \<^verbatim>\<open>write_results\<close>.
\<close>

lemma write_results_makedirs_raises:
  assumes "dirs w (metrics_dir self) = None" and "makedirs_fault w (metrics_dir self) = Some e"
  shows "write_results self w = (Some e, w\<lparr>ticks := Suc (ticks w)\<rparr>)"
  using assms by (simp add: write_results_def time_time_def os_path_exists_def os_makedirs_def)

lemma open_and_dump_open_fault:
  "open_fault w (os_path_join mdir f) = Some e \<Longrightarrow> open_and_dump w mdir f = (Some e, w)"
  by (simp add: open_and_dump_def)

lemma write_results_open_fault_logged:
  assumes "dirs w (metrics_dir self) = Some d"
    and "open_fault w (os_path_join (metrics_dir self) (perfmetrics_name w (clock w (ticks w))))
          = Some e"
    and "is_OSError e"
  shows "write_results self w = (None, w\<lparr>ticks := Suc (ticks w),
      error_log := error_log w @ [(''Error writing performance metrics to file %s'',
        os_path_join (metrics_dir self) (perfmetrics_name w (clock w (ticks w))))]\<rparr>)"
proof -
  let ?w1 = "w\<lparr>ticks := Suc (ticks w)\<rparr>"
  let ?f = "perfmetrics_name w (clock w (ticks w))"
  have n: "perfmetrics_name ?w1 (clock w (ticks w)) = ?f"
    by (simp add: perfmetrics_name_def)
  have "open_fault ?w1 (os_path_join (metrics_dir self) ?f) = Some e"
    using assms(2) by simp
  then have o: "open_and_dump ?w1 (metrics_dir self) ?f = (Some e, ?w1)"
    by (rule open_and_dump_open_fault)
  have x: "os_path_exists ?w1 (metrics_dir self)"
    using assms(1) by (simp add: os_path_exists_def)
  show ?thesis
    unfolding write_results_def time_time_def
    using x o n assms(3) by (simp add: Let_def)
qed

lemma open_and_dump_error_log: "error_log (snd (open_and_dump w mdir f)) = error_log w"
  by (simp add: open_and_dump_def Let_def split: option.splits)

lemma write_results_write_fault_logged:
  assumes "dirs w (metrics_dir self) = Some d"
    and "open_fault w (os_path_join (metrics_dir self) (perfmetrics_name w (clock w (ticks w))))
          = None"
    and "write_fault w (os_path_join (metrics_dir self) (perfmetrics_name w (clock w (ticks w))))
          = Some e"
    and "is_OSError e"
  shows "fst (write_results self w) = None \<and>
     error_log (snd (write_results self w)) =
       error_log w @ [(''Error writing performance metrics to file %s'',
         os_path_join (metrics_dir self) (perfmetrics_name w (clock w (ticks w))))]"
proof -
  let ?w1 = "w\<lparr>ticks := Suc (ticks w)\<rparr>"
  let ?f = "perfmetrics_name w (clock w (ticks w))"
  have n: "perfmetrics_name ?w1 (clock w (ticks w)) = ?f"
    by (simp add: perfmetrics_name_def)
  have x: "os_path_exists ?w1 (metrics_dir self)"
    using assms(1) by (simp add: os_path_exists_def)
  obtain r w3 where o: "open_and_dump ?w1 (metrics_dir self) ?f = (r, w3)"
    by (cases "open_and_dump ?w1 (metrics_dir self) ?f")
  have "\<exists>e'. fst (open_and_dump ?w1 (metrics_dir self) ?f) = Some e' \<and> is_OSError e'"
    using assms by (auto simp: open_and_dump_def Let_def)
  then obtain e' where r: "r = Some e'" "is_OSError e'" using o by auto
  have l: "error_log w3 = error_log w"
    using open_and_dump_error_log [of ?w1 "metrics_dir self" ?f] o by simp
  show ?thesis
    unfolding write_results_def time_time_def
    using x o n r l by (simp add: Let_def)
qed

text \<open>
  C3. The metrics directory does not exist and \<^verbatim>\<open>os.makedirs\<close> fails with
  PermissionError: \<^verbatim>\<open>write_results\<close> raises it and logs nothing, where the claim says
  that a failing directory creation is caught and logged.
\<close>

theorem write_results_makedirs_uncaught:
  "write_results plugin0 (world0\<lparr>makedirs_fault := (\<lambda>p. Some (PermissionError p))\<rparr>)
     = (Some (PermissionError ''/var/log/dnf/perfmetrics''),
        world0\<lparr>makedirs_fault := (\<lambda>p. Some (PermissionError p)), ticks := 1\<rparr>)"
  by (simp add: write_results_def time_time_def os_path_exists_def os_makedirs_def
      plugin0_simps world0_def)

lemma transaction_makedirs_uncaught:
  "fst (transaction plugin0 (world0\<lparr>makedirs_fault := (\<lambda>p. Some (PermissionError p))\<rparr>))
     = Some (PermissionError ''/var/log/dnf/perfmetrics'')"
  by (simp add: transaction_def write_results_def time_time_def os_path_exists_def os_makedirs_def
      plugin0_simps world0_def)

section \<open>The retention sweep\<close>

lemma vanish_Nil: "vanish [] d = d"
  by (simp add: vanish_def)

lemma quiet_simps:
  "before_stat quiet f = []" "before_remove quiet f = []"
  "stat_fault quiet f = None" "remove_fault quiet f = None"
  by (simp_all add: quiet_def)

lemma map_of_middle: "f \<notin> fst ` set ks \<Longrightarrow> map_of (ks @ (f, e) # ys) f = Some e"
  by (induction ks) auto

lemma filter_out_name:
  "f \<notin> fst ` set ks \<Longrightarrow> filter (\<lambda>(n, e). n \<noteq> f) ks = ks"
  by (induction ks) auto

lemma cleanup_loop_quiet_step:
  assumes "f \<notin> fst ` set ks" and "f \<notin> fst ` set ys"
  shows "cleanup_loop now rh mdir quiet (f # fs) (ks @ (f, e) # ys) =
     (if st_mtime e < now - real_of_int (rh * 3600)
      then (if kind e = Directory
            then (Some (IsADirectoryError (os_path_join mdir f)), ks @ (f, e) # ys)
            else cleanup_loop now rh mdir quiet fs (ks @ ys))
      else cleanup_loop now rh mdir quiet fs (ks @ (f, e) # ys))"
  using assms
  by (simp add: quiet_simps vanish_Nil os_stat_def os_remove_def map_of_middle filter_out_name
      del: map_of_append)

lemma cleanup_loop_completes:
  assumes "distinct (map fst (ks @ ys))"
    and "list_all (\<lambda>(n, e). \<not> (st_mtime e < now - real_of_int (rh * 3600) \<and> kind e = Directory)) ys"
  shows "cleanup_loop now rh mdir quiet (map fst ys) (ks @ ys) =
     (None, ks @ filter (\<lambda>(n, e). \<not> st_mtime e < now - real_of_int (rh * 3600)) ys)"
  using assms
proof (induction ys arbitrary: ks)
  case Nil
  then show ?case by simp
next
  case (Cons p ys)
  obtain f e where p: "p = (f, e)" by (cases p)
  have nk: "f \<notin> fst ` set ks" and ny: "f \<notin> fst ` set ys"
    using Cons.prems(1) p by auto
  have d1: "distinct (map fst (ks @ ys))" using Cons.prems(1) by simp
  have d2: "distinct (map fst ((ks @ [(f, e)]) @ ys))" using Cons.prems(1) p by simp
  have rest: "list_all (\<lambda>(n, e). \<not> (st_mtime e < now - real_of_int (rh * 3600) \<and> kind e = Directory)) ys"
    using Cons.prems(2) by simp
  have hd: "\<not> (st_mtime e < now - real_of_int (rh * 3600) \<and> kind e = Directory)"
    using Cons.prems(2) p by simp
  show ?case
  proof (cases "st_mtime e < now - real_of_int (rh * 3600)")
    case True
    then have "kind e \<noteq> Directory" using hd by simp
    then show ?thesis
      using True p cleanup_loop_quiet_step [OF nk ny, of now rh mdir "map fst ys" e]
        Cons.IH [OF d1 rest] by simp
  next
    case False
    then show ?thesis
      using p cleanup_loop_quiet_step [OF nk ny, of now rh mdir "map fst ys" e]
        Cons.IH [OF d2 rest] by simp
  qed
qed





lemma map_of_vanish: "map_of (vanish gone d) f = (if f \<in> set gone then None else map_of d f)"
  by (induction d) (auto simp: vanish_def)

































end
